theory Spec2Isabelle
  imports Main
begin

section \<open>The duffle invocation layer (src/app/utils/duffle.ts)\<close>

text \<open>
  A shallow embedding of \<^verbatim>\<open>src/app/utils/duffle.ts\<close>: the resolver of the duffle binary
  with its module-level cache, the builders of argument strings, and \<^verbatim>\<open>invokeObj\<close>,
  through which every operation runs.

  A JavaScript string is a \<open>string\<close>; a \<open>char\<close> stands for a code unit below 256, which
  covers every literal of the source. \<^verbatim>\<open>console.log\<close> writes to a sink that nothing reads
  back, and is left out of the state.
\<close>

subsection \<open>Strings: what the source uses of the JavaScript library\<close>

text \<open>
  \<^verbatim>\<open>String.prototype.trim\<close> strips white space and line terminators at both ends. Below
  code unit 256 these are TAB, LF, VT, FF, CR, SPACE and NBSP.
\<close>

definition isWhiteSpace :: "char \<Rightarrow> bool" where
  "isWhiteSpace c =
     (c = CHR 0x09 \<or> c = CHR 0x0A \<or> c = CHR 0x0B \<or> c = CHR 0x0C \<or> c = CHR 0x0D
      \<or> c = CHR 0x20 \<or> c = CHR 0xA0)"

definition trim :: "string \<Rightarrow> string" where
  "trim s = rev (dropWhile isWhiteSpace (rev (dropWhile isWhiteSpace s)))"

text \<open>
  \<^verbatim>\<open>s.split(sep)\<close> for a separator of one code unit: the pieces between the separators,
  so that a string with \<open>n\<close> separators has \<open>n + 1\<close> pieces, some possibly empty.
\<close>

fun str_split :: "char \<Rightarrow> string \<Rightarrow> string list" where
  "str_split sep [] = [[]]"
| "str_split sep (c # cs) =
     (if c = sep then [] # str_split sep cs
      else (c # hd (str_split sep cs)) # tl (str_split sep cs))"

text \<open>\<^verbatim>\<open>xs.join(sep)\<close>: the elements with the separator between neighbours.\<close>

fun join :: "string \<Rightarrow> string list \<Rightarrow> string" where
  "join sep [] = []"
| "join sep [x] = x"
| "join sep (x # y # ys) = x @ sep @ join sep (y # ys)"

text \<open>
  Truthiness of a \<^verbatim>\<open>string | undefined\<close>, as \<^verbatim>\<open>if (x)\<close>, \<^verbatim>\<open>!x\<close> and \<^verbatim>\<open>!!x\<close> test it:
  \<^verbatim>\<open>undefined\<close> and the empty string are falsy, every other string is truthy.
\<close>

fun truthy :: "string option \<Rightarrow> bool" where
  "truthy None = False"
| "truthy (Some s) = (s \<noteq> [])"

subsection \<open>The collaborators\<close>

text \<open>
  \<^verbatim>\<open>Errorable<T>\<close> (\<^verbatim>\<open>../utils/errorable\<close>): success with a result, or failure with
  messages. \<open>result\<close> is read only behind \<open>succeeded\<close>, as in the source.
\<close>

datatype 'a Errorable = Succeeded (result: 'a) | Failed (error: "string list")

fun succeeded :: "'a Errorable \<Rightarrow> bool" where
  "succeeded (Succeeded r) = True"
| "succeeded (Failed e) = False"

record ShellResult =
  code :: int
  stdout :: string
  stderr :: string

text \<open>
  Modelled from the spec: the type \<^verbatim>\<open>shell.Platform\<close> is declared in
  \<^verbatim>\<open>src/app/utils/shell.ts\<close>, which is not among the sources. It has the three members the
  source names, and a fourth for "any other platform value".
\<close>

datatype Platform = Windows | MacOS | Linux | Unsupported

text \<open>
  Modelled from the spec: \<^verbatim>\<open>shell.ExecOpts\<close>, also declared in \<^verbatim>\<open>shell.ts\<close>, holds
  "environment/working-directory overrides" and is opaque to this layer; every operation
  passes the empty object.
\<close>

type_synonym ExecOpts = "(string \<times> string) list"

text \<open>
  The \<^verbatim>\<open>Shell\<close> object \<^verbatim>\<open>sh\<close>. What a command does depends on the world outside the
  process, of type \<open>'w\<close>: \<open>exec\<close> and \<open>execObj\<close> take the world and return the new one.
  A command that could not be started is a \<open>Failed\<close> result, which is what the source
  tests with \<^verbatim>\<open>succeeded\<close>. \<open>'a\<close> is the type parameter \<^verbatim>\<open>T\<close> of \<^verbatim>\<open>execObj<T>\<close>.
\<close>

record ('w, 'a) Shell =
  exec :: "string \<Rightarrow> 'w \<Rightarrow> ShellResult Errorable \<times> 'w"
  execObj :: "string \<Rightarrow> string \<Rightarrow> ExecOpts \<Rightarrow> (string \<Rightarrow> 'a) \<Rightarrow> 'w \<Rightarrow> 'a Errorable \<times> 'w"
  platform :: Platform

text \<open>
  What the host supplies: \<^verbatim>\<open>process.resourcesPath\<close> (Electron sets it in a packaged
  application only) and \<^verbatim>\<open>path.join\<close> of Node's \<^verbatim>\<open>path\<close> module on two segments.
\<close>

record Host =
  resourcesPath :: "string option"
  path_join :: "string \<Rightarrow> string \<Rightarrow> string"

subsection \<open>State\<close>

record BinaryInfo =
  path :: string
  version :: string

text \<open>One call of the collaborator, with the command line it was given.\<close>

datatype Call = Exec string | ExecObj string

text \<open>
  \<open>duffle\<close> is the module variable of that name (the cache), \<open>world\<close> is the world the
  collaborator acts on, and \<open>calls\<close> records every call of the collaborator, oldest first.
  Every \<^verbatim>\<open>async\<close> function takes the state and returns the new one: calls run one after
  the other, each awaited before the next starts.
\<close>

record 'w State =
  duffle :: "BinaryInfo option"
  world :: 'w
  calls :: "Call list"

definition initial :: "'w \<Rightarrow> 'w State" where
  "initial w = \<lparr>duffle = None, world = w, calls = []\<rparr>"

definition sh_exec :: "('w, 'a) Shell \<Rightarrow> string \<Rightarrow> 'w State \<Rightarrow> ShellResult Errorable \<times> 'w State" where
  "sh_exec sh cmd s =
     (let (r, w) = exec sh cmd (world s)
      in (r, s\<lparr>world := w, calls := calls s @ [Exec cmd]\<rparr>))"

definition sh_execObj ::
  "('w, 'a) Shell \<Rightarrow> string \<Rightarrow> string \<Rightarrow> ExecOpts \<Rightarrow> (string \<Rightarrow> 'a) \<Rightarrow> 'w State \<Rightarrow> 'a Errorable \<times> 'w State" where
  "sh_execObj sh cmd desc opts fn s =
     (let (r, w) = execObj sh cmd desc opts fn (world s)
      in (r, s\<lparr>world := w, calls := calls s @ [ExecObj cmd]\<rparr>))"

subsection \<open>Binary resolution\<close>

fun duffleResourcePath :: "Platform \<Rightarrow> string option" where
  "duffleResourcePath Windows = Some ''dufflebin/win32/duffle.exe''"
| "duffleResourcePath Linux = Some ''dufflebin/linux/duffle''"
| "duffleResourcePath MacOS = Some ''dufflebin/darwin/duffle''"
| "duffleResourcePath Unsupported = None"

definition findDuffleBinaryCore ::
  "Host \<Rightarrow> ('w, 'a) Shell \<Rightarrow> 'w State \<Rightarrow> BinaryInfo option \<times> 'w State" where
  "findDuffleBinaryCore host sh s =
     (let (sr, s1) = sh_exec sh ''duffle version'' s in
      if succeeded sr \<and> code (result sr) = 0
      then (Some \<lparr>path = ''duffle'', version = trim (stdout (result sr))\<rparr>, s1)
      else
        let resourcePath = duffleResourcePath (platform sh) in
        if \<not> truthy resourcePath then (None, s1)
        else if \<not> truthy (resourcesPath host) then (None, s1)
        else
          let binPath = path_join host (the (resourcesPath host)) (the resourcePath);
              (srr, s2) = sh_exec sh (binPath @ '' version'') s1
          in if succeeded srr \<and> code (result srr) = 0
             then (Some \<lparr>path = binPath, version = trim (stdout (result srr))\<rparr>, s2)
             else (None, s2))"

definition findDuffleBinary ::
  "Host \<Rightarrow> ('w, 'a) Shell \<Rightarrow> 'w State \<Rightarrow> BinaryInfo option \<times> 'w State" where
  "findDuffleBinary host sh s =
     (if duffle s = None
      then (let (found, s1) = findDuffleBinaryCore host sh s
            in (found, s1\<lparr>duffle := found\<rparr>))
      else (duffle s, s))"

subsection \<open>The invocation facade\<close>

definition cannot_find :: string where
  "cannot_find =
     ''Can't find Duffle on this machine. Install it on your system PATH and restart the installer.''"

definition andLog :: "(string \<Rightarrow> 'a) \<Rightarrow> string \<Rightarrow> 'a" where
  "andLog fn = (\<lambda>s. fn s)"

definition invokeObj ::
  "Host \<Rightarrow> ('w, 'a) Shell \<Rightarrow> string \<Rightarrow> string \<Rightarrow> ExecOpts \<Rightarrow> (string \<Rightarrow> 'a) \<Rightarrow> 'w State
     \<Rightarrow> 'a Errorable \<times> 'w State" where
  "invokeObj host sh command args opts fn s =
     (let (bin, s1) = findDuffleBinary host sh s in
      case bin of
        None \<Rightarrow> (Failed [cannot_find], s1)
      | Some b \<Rightarrow>
          let cmd = path b @ '' '' @ command @ '' '' @ args
          in sh_execObj sh cmd (''duffle '' @ command) opts (andLog fn) s1)"

subsection \<open>Argument strings\<close>

record Pair =
  key :: string
  val :: string

text \<open>
  Modelled from the spec: \<^verbatim>\<open>pairs.fromStringMap\<close> is defined in
  \<^verbatim>\<open>src/app/utils/pairs.ts\<close>, which is not among the sources. The parameter object is the
  list of its entries "in the mapping's iteration order", and \<^verbatim>\<open>fromStringMap\<close> makes a
  key/value pair of each entry, in that order.
\<close>

definition fromStringMap :: "(string \<times> string) list \<Rightarrow> Pair list" where
  "fromStringMap parameters = map (\<lambda>(k, v). \<lparr>key = k, val = v\<rparr>) parameters"

text \<open>
  \<^verbatim>\<open>shell.safeValue\<close> is defined in \<^verbatim>\<open>shell.ts\<close> too; it is the parameter \<open>safeValue\<close>.
\<close>

definition paramsArgs :: "(string \<Rightarrow> string) \<Rightarrow> (string \<times> string) list \<Rightarrow> string" where
  "paramsArgs safeValue parameters =
     join '' ''
       (map (\<lambda>p. ''--set '' @ key p @ ''='' @ safeValue (val p))
          (filter (\<lambda>p. truthy (Some (val p))) (fromStringMap parameters)))"

definition credentialArg :: "string option \<Rightarrow> string" where
  "credentialArg credentialSet =
     (if truthy credentialSet then ''-c '' @ the credentialSet else [])"

text \<open>The argument templates of the two install operations.\<close>

definition installFile_args ::
  "(string \<Rightarrow> string) \<Rightarrow> string \<Rightarrow> string \<Rightarrow> (string \<times> string) list \<Rightarrow> string option \<Rightarrow> string" where
  "installFile_args safeValue bundleFilePath name params credentialSet =
     name @ '' -f '' @ [CHR 0x22] @ bundleFilePath @ [CHR 0x22] @ '' ''
       @ paramsArgs safeValue params @ '' '' @ credentialArg credentialSet"

definition installBundle_args ::
  "(string \<Rightarrow> string) \<Rightarrow> string \<Rightarrow> string \<Rightarrow> (string \<times> string) list \<Rightarrow> string option \<Rightarrow> string" where
  "installBundle_args safeValue bundleName name params credentialSet =
     name @ '' '' @ bundleName @ '' '' @ paramsArgs safeValue params @ '' ''
       @ credentialArg credentialSet"

subsection \<open>The operations\<close>

definition list_parse :: "string \<Rightarrow> string list" where
  "list_parse out = filter (\<lambda>l. length l > 0) (map (\<lambda>l. trim l) (str_split CHR 0x0A out))"

definition list ::
  "Host \<Rightarrow> ('w, string list) Shell \<Rightarrow> 'w State \<Rightarrow> string list Errorable \<times> 'w State" where
  "list host sh s = invokeObj host sh ''list'' [] [] list_parse s"

definition listRepos :: "('w, 'a) Shell \<Rightarrow> 'w State \<Rightarrow> string list Errorable \<times> 'w State" where
  "listRepos sh s = (Succeeded [''hub.cnlabs.io''], s)"

definition listCredentialSets_parse :: "string \<Rightarrow> string list" where
  "listCredentialSets_parse out =
     filter (\<lambda>l. length l > 0) (map (\<lambda>l. trim l) (str_split CHR 0x0A out))"

definition listCredentialSets ::
  "Host \<Rightarrow> ('w, string list) Shell \<Rightarrow> 'w State \<Rightarrow> string list Errorable \<times> 'w State" where
  "listCredentialSets host sh s =
     invokeObj host sh ''credentials list'' [] [] listCredentialSets_parse s"

definition upgrade ::
  "Host \<Rightarrow> ('w, unit) Shell \<Rightarrow> string \<Rightarrow> 'w State \<Rightarrow> unit Errorable \<times> 'w State" where
  "upgrade host sh bundleName s = invokeObj host sh ''upgrade'' bundleName [] (\<lambda>s. ()) s"

definition uninstall ::
  "Host \<Rightarrow> ('w, unit) Shell \<Rightarrow> string \<Rightarrow> 'w State \<Rightarrow> unit Errorable \<times> 'w State" where
  "uninstall host sh bundleName s = invokeObj host sh ''uninstall'' bundleName [] (\<lambda>s. ()) s"

definition pushFile ::
  "Host \<Rightarrow> ('w, unit) Shell \<Rightarrow> string \<Rightarrow> string \<Rightarrow> 'w State \<Rightarrow> unit Errorable \<times> 'w State" where
  "pushFile host sh filePath repo s =
     invokeObj host sh ''push''
       (''-f '' @ [CHR 0x22] @ filePath @ [CHR 0x22] @ '' --repo '' @ repo) [] (\<lambda>s. ()) s"

definition installFile ::
  "(string \<Rightarrow> string) \<Rightarrow> Host \<Rightarrow> ('w, unit) Shell \<Rightarrow> string \<Rightarrow> string \<Rightarrow> (string \<times> string) list
     \<Rightarrow> string option \<Rightarrow> 'w State \<Rightarrow> unit Errorable \<times> 'w State" where
  "installFile safeValue host sh bundleFilePath name params credentialSet s =
     invokeObj host sh ''install''
       (installFile_args safeValue bundleFilePath name params credentialSet) [] (\<lambda>s. ()) s"

definition installBundle ::
  "(string \<Rightarrow> string) \<Rightarrow> Host \<Rightarrow> ('w, unit) Shell \<Rightarrow> string \<Rightarrow> string \<Rightarrow> (string \<times> string) list
     \<Rightarrow> string option \<Rightarrow> 'w State \<Rightarrow> unit Errorable \<times> 'w State" where
  "installBundle safeValue host sh bundleName name params credentialSet s =
     invokeObj host sh ''install''
       (installBundle_args safeValue bundleName name params credentialSet) [] (\<lambda>s. ()) s"

definition addCredentialSets ::
  "Host \<Rightarrow> ('w, unit) Shell \<Rightarrow> string list \<Rightarrow> 'w State \<Rightarrow> unit Errorable \<times> 'w State" where
  "addCredentialSets host sh files s =
     (let filesArg = join '' '' (map (\<lambda>f. [CHR 0x22] @ f @ [CHR 0x22]) files)
      in invokeObj host sh ''credential add'' filesArg [] (\<lambda>s. ()) s)"

definition deleteCredentialSet ::
  "Host \<Rightarrow> ('w, unit) Shell \<Rightarrow> string \<Rightarrow> 'w State \<Rightarrow> unit Errorable \<times> 'w State" where
  "deleteCredentialSet host sh credentialSetName s =
     invokeObj host sh ''credential remove'' credentialSetName [] (\<lambda>s. ()) s"

definition generateCredentialsForFile ::
  "Host \<Rightarrow> ('w, unit) Shell \<Rightarrow> string \<Rightarrow> string \<Rightarrow> 'w State \<Rightarrow> unit Errorable \<times> 'w State" where
  "generateCredentialsForFile host sh bundleFilePath name s =
     invokeObj host sh ''credentials generate''
       (name @ '' -f '' @ [CHR 0x22] @ bundleFilePath @ [CHR 0x22]) [] (\<lambda>s. ()) s"

definition generateCredentialsForBundle ::
  "Host \<Rightarrow> ('w, unit) Shell \<Rightarrow> string \<Rightarrow> string \<Rightarrow> 'w State \<Rightarrow> unit Errorable \<times> 'w State" where
  "generateCredentialsForBundle host sh bundleName name s =
     invokeObj host sh ''credentials generate'' (name @ '' '' @ bundleName) [] (\<lambda>s. ()) s"

subsection \<open>The parameter rendering in the words of the specification\<close>

text \<open>
  "For each non-empty-valued entry in the parameter mapping, emit \<^verbatim>\<open>--set <key>=<escaped-value>\<close>",
  one token per entry, in the order of the entries; \<open>esc\<close> is the escaping.
\<close>

fun spec_set_tokens :: "(string \<Rightarrow> string) \<Rightarrow> (string \<times> string) list \<Rightarrow> string list" where
  "spec_set_tokens esc [] = []"
| "spec_set_tokens esc ((k, v) # ps) =
     (if v = [] then spec_set_tokens esc ps
      else (''--set '' @ k @ ''='' @ esc v) # spec_set_tokens esc ps)"

subsection \<open>Example collaborators\<close>

text \<open>
  Concrete shells and hosts, for the examples below. \<open>shell_of run p\<close> is a shell on
  platform \<open>p\<close> whose commands behave as \<open>run\<close> says.

  Modelled from the spec: \<^verbatim>\<open>execObj\<close> is implemented in \<^verbatim>\<open>shell.ts\<close>, which is not among
  the sources; here it runs the command and "on successful process completion" applies
  "the parser function to stdout, wrapping the result as success", and fails otherwise.
\<close>

definition shell_of ::
  "(string \<Rightarrow> 'w \<Rightarrow> ShellResult Errorable \<times> 'w) \<Rightarrow> Platform \<Rightarrow> ('w, 'a) Shell" where
  "shell_of run p =
     \<lparr>exec = run,
      execObj = (\<lambda>cmd desc opts fn w.
         let (r, w1) = run cmd w in
         if succeeded r \<and> code (result r) = 0 then (Succeeded (fn (stdout (result r))), w1)
         else (Failed [desc @ '' failed''], w1)),
      platform = p\<rparr>"

text \<open>No duffle anywhere: every command exits with status 127.\<close>

definition run_absent :: "string \<Rightarrow> unit \<Rightarrow> ShellResult Errorable \<times> unit" where
  "run_absent cmd w =
     (Succeeded \<lparr>code = 127, stdout = [], stderr = ''duffle: command not found''\<rparr>, w)"

text \<open>duffle v1.2.3 on the search path.\<close>

definition run_installed :: "string \<Rightarrow> unit \<Rightarrow> ShellResult Errorable \<times> unit" where
  "run_installed cmd w =
     (if cmd = ''duffle version''
      then (Succeeded \<lparr>code = 0, stdout = ''v1.2.3\<newline>'', stderr = []\<rparr>, w)
      else (Succeeded \<lparr>code = 0, stdout = [], stderr = []\<rparr>, w))"

definition sh_absent :: "(unit, 'a) Shell" where
  "sh_absent = shell_of run_absent Linux"

definition sh_installed :: "(unit, 'a) Shell" where
  "sh_installed = shell_of run_installed Linux"

definition sh_unsupported :: "(unit, 'a) Shell" where
  "sh_unsupported = shell_of run_absent Unsupported"

definition host_unpackaged :: Host where
  "host_unpackaged = \<lparr>resourcesPath = None, path_join = (\<lambda>a b. a @ ''/'' @ b)\<rparr>"

definition host_packaged :: Host where
  "host_packaged =
     \<lparr>resourcesPath = Some ''/opt/app/resources'', path_join = (\<lambda>a b. a @ ''/'' @ b)\<rparr>"

lemmas fixture_defs = shell_of_def run_absent_def run_installed_def sh_absent_def
  sh_installed_def sh_unsupported_def host_unpackaged_def host_packaged_def initial_def

section \<open>Binary resolution and its cache\<close>

lemma core_duffle: "duffle (snd (findDuffleBinaryCore host sh s)) = duffle s"
  by (simp add: findDuffleBinaryCore_def sh_exec_def Let_def split_beta)

text \<open>Resolution asks the shell for the system duffle first, and only ever calls \<open>exec\<close>.\<close>

lemma core_calls:
  "\<exists>rest. calls (snd (findDuffleBinaryCore host sh s)) =
            calls s @ Exec ''duffle version'' # map Exec rest"
proof -
  have "calls (snd (findDuffleBinaryCore host sh s)) =
          calls s @ Exec ''duffle version'' # map Exec []
      \<or> calls (snd (findDuffleBinaryCore host sh s)) =
          calls s @ Exec ''duffle version'' #
            map Exec [path_join host (the (resourcesPath host))
                        (the (duffleResourcePath (platform sh))) @ '' version'']"
    by (simp add: findDuffleBinaryCore_def sh_exec_def Let_def split_beta)
  then show ?thesis by blast
qed

lemma find_miss:
  assumes "fst (findDuffleBinary host sh s) = None"
  shows "duffle s = None"
    and "snd (findDuffleBinary host sh s) = snd (findDuffleBinaryCore host sh s)"
    and "fst (findDuffleBinaryCore host sh s) = None"
proof -
  show d: "duffle s = None"
    using assms by (auto simp: findDuffleBinary_def split: if_splits)
  from assms d show n: "fst (findDuffleBinaryCore host sh s) = None"
    by (simp add: findDuffleBinary_def split_beta)
  have "snd (findDuffleBinary host sh s) = (snd (findDuffleBinaryCore host sh s))\<lparr>duffle := None\<rparr>"
    using d n by (simp add: findDuffleBinary_def split_beta)
  moreover have "duffle (snd (findDuffleBinaryCore host sh s)) = None"
    using d by (simp add: core_duffle)
  ultimately show "snd (findDuffleBinary host sh s) = snd (findDuffleBinaryCore host sh s)"
    by simp
qed

lemma find_miss_calls:
  assumes "fst (findDuffleBinary host sh s) = None"
  shows "\<exists>rest. calls (snd (findDuffleBinary host sh s)) =
            calls s @ Exec ''duffle version'' # map Exec rest"
  using find_miss(2)[OF assms] core_calls[of host sh s] by simp

lemma find_empty_calls:
  assumes "duffle s = None"
  shows "\<exists>rest. calls (snd (findDuffleBinary host sh s)) =
            calls s @ Exec ''duffle version'' # map Exec rest"
proof -
  have "calls (snd (findDuffleBinary host sh s)) = calls (snd (findDuffleBinaryCore host sh s))"
    using assms by (simp add: findDuffleBinary_def split_beta)
  then show ?thesis using core_calls[of host sh s] by simp
qed

lemma invoke_miss:
  assumes "fst (findDuffleBinary host sh s) = None"
  shows "invokeObj host sh command args opts fn s =
           (Failed [cannot_find], snd (findDuffleBinary host sh s))"
  using assms by (simp add: invokeObj_def split_beta)

lemma invoke_empty_calls:
  assumes "duffle s = None"
  shows "\<exists>rest. calls (snd (invokeObj host sh command args opts fn s)) =
            calls s @ Exec ''duffle version'' # rest"
proof -
  obtain ps where ps: "calls (snd (findDuffleBinary host sh s)) =
      calls s @ Exec ''duffle version'' # map Exec ps"
    using find_empty_calls[OF assms] by blast
  show ?thesis
  proof (cases "fst (findDuffleBinary host sh s)")
    case None
    then show ?thesis using ps by (simp add: invoke_miss)
  next
    case (Some b)
    then have "calls (snd (invokeObj host sh command args opts fn s)) =
        calls (snd (findDuffleBinary host sh s))
          @ [ExecObj (path b @ '' '' @ command @ '' '' @ args)]"
      by (simp add: invokeObj_def sh_execObj_def Let_def split_beta)
    then show ?thesis using ps by simp
  qed
qed

text \<open>
  C4. From an empty cache, when the shell answers \<^verbatim>\<open>duffle version\<close> with exit status 0
  and stdout \<^verbatim>\<open>"v1.2.3\n"\<close>, resolution returns path \<^verbatim>\<open>duffle\<close> and version
  \<^verbatim>\<open>v1.2.3\<close> after that one call of the shell, and stores it in the cache. A second
  resolution, with any shell and host, returns the same binary and leaves the state as it
  is: the world and the record of calls do not change, so no process is executed.
\<close>

theorem system_probe_found_and_cached:
  assumes "duffle s = None"
    and "exec sh ''duffle version'' (world s) =
           (Succeeded \<lparr>code = 0, stdout = ''v1.2.3\<newline>'', stderr = err\<rparr>, w)"
  shows "findDuffleBinary host sh s =
           (Some \<lparr>path = ''duffle'', version = ''v1.2.3''\<rparr>,
            \<lparr>duffle = Some \<lparr>path = ''duffle'', version = ''v1.2.3''\<rparr>, world = w,
             calls = calls s @ [Exec ''duffle version'']\<rparr>)
       \<and> findDuffleBinary host' sh' (snd (findDuffleBinary host sh s)) =
           (Some \<lparr>path = ''duffle'', version = ''v1.2.3''\<rparr>, snd (findDuffleBinary host sh s))"
  using assms
  by (simp add: findDuffleBinary_def findDuffleBinaryCore_def sh_exec_def trim_def
      isWhiteSpace_def)

text \<open>
  C4 at the shell with duffle v1.2.3 installed, in a fresh process; the second resolution
  is made with a shell that has no duffle at all, and still answers from the cache.
\<close>

theorem system_probe_found_and_cached_witness:
  "duffle (initial ()) = None
   \<and> exec sh_installed ''duffle version'' (world (initial ())) =
       (Succeeded \<lparr>code = 0, stdout = ''v1.2.3\<newline>'', stderr = []\<rparr>, ())
   \<and> findDuffleBinary host_packaged (sh_installed :: (unit, unit) Shell) (initial ()) =
       (Some \<lparr>path = ''duffle'', version = ''v1.2.3''\<rparr>,
        \<lparr>duffle = Some \<lparr>path = ''duffle'', version = ''v1.2.3''\<rparr>, world = (),
         calls = [Exec ''duffle version'']\<rparr>)
   \<and> findDuffleBinary host_unpackaged (sh_absent :: (unit, unit) Shell)
        (snd (findDuffleBinary host_packaged (sh_installed :: (unit, unit) Shell) (initial ()))) =
       (Some \<lparr>path = ''duffle'', version = ''v1.2.3''\<rparr>,
        snd (findDuffleBinary host_packaged (sh_installed :: (unit, unit) Shell) (initial ())))"
proof -
  have h1: "duffle (initial ()) = None" by (simp add: initial_def)
  have h2: "exec (sh_installed :: (unit, unit) Shell) ''duffle version'' (world (initial ())) =
       (Succeeded \<lparr>code = 0, stdout = ''v1.2.3\<newline>'', stderr = []\<rparr>, ())"
    by (simp add: fixture_defs)
  show ?thesis
    using h1 h2 system_probe_found_and_cached [OF h1 h2, of host_packaged host_unpackaged sh_absent]
    by (simp add: fixture_defs)
qed

text \<open>
  C9. When the system probe fails (the shell reports failure, or a non-zero exit status)
  and the platform is none of Windows, Linux and macOS, there is no resource path, and
  resolution fails after that single call of the shell, whatever the host: no path of a
  bundled binary is joined and no second command is run.
\<close>

theorem unsupported_platform_fails_at_once:
  assumes "\<forall>r. fst (exec sh ''duffle version'' (world s)) = Succeeded r \<longrightarrow> code r \<noteq> 0"
    and "platform sh \<noteq> Windows \<and> platform sh \<noteq> Linux \<and> platform sh \<noteq> MacOS"
  shows "duffleResourcePath (platform sh) = None
       \<and> findDuffleBinaryCore host sh s =
           (None, s\<lparr>world := snd (exec sh ''duffle version'' (world s)),
                    calls := calls s @ [Exec ''duffle version'']\<rparr>)"
proof -
  from assms(2) have p: "platform sh = Unsupported"
    by (cases "platform sh") simp_all
  have f: "\<not> (succeeded (fst (exec sh ''duffle version'' (world s)))
          \<and> code (result (fst (exec sh ''duffle version'' (world s)))) = 0)"
    using assms(1) by (cases "fst (exec sh ''duffle version'' (world s))") simp_all
  show ?thesis using p f
    by (simp add: findDuffleBinaryCore_def sh_exec_def Let_def split_beta)
qed

text \<open>
  C9 at a shell on an unsupported platform with no duffle, in a packaged application: the
  resource root is there, and still only \<^verbatim>\<open>duffle version\<close> is run.
\<close>

theorem unsupported_platform_fails_at_once_witness:
  "fst (exec (sh_unsupported :: (unit, unit) Shell) ''duffle version'' (world (initial ()))) =
     Succeeded \<lparr>code = 127, stdout = [], stderr = ''duffle: command not found''\<rparr>
   \<and> platform (sh_unsupported :: (unit, unit) Shell) = Unsupported
   \<and> findDuffleBinaryCore host_packaged (sh_unsupported :: (unit, unit) Shell) (initial ()) =
       (None, \<lparr>duffle = None, world = (), calls = [Exec ''duffle version'']\<rparr>)"
proof -
  have h1: "\<forall>r. fst (exec (sh_unsupported :: (unit, unit) Shell) ''duffle version''
              (world (initial ()))) = Succeeded r \<longrightarrow> code r \<noteq> 0"
    by (simp add: fixture_defs)
  have h2: "platform (sh_unsupported :: (unit, unit) Shell) \<noteq> Windows
      \<and> platform (sh_unsupported :: (unit, unit) Shell) \<noteq> Linux
      \<and> platform (sh_unsupported :: (unit, unit) Shell) \<noteq> MacOS"
    by (simp add: fixture_defs)
  show ?thesis
    using unsupported_platform_fails_at_once [OF h1 h2, of host_packaged]
    by (simp add: fixture_defs)
qed

text \<open>
  C1, as stated, fails. With no duffle on the machine and no resource root, the first
  \<^verbatim>\<open>list\<close> fails with the message after one call of the shell, and the second \<^verbatim>\<open>list\<close>
  fails with the message too, but after calling the shell again: the record of calls holds
  \<^verbatim>\<open>duffle version\<close> twice. Resolution ran twice; the failure was not memoized.
\<close>

theorem failure_not_memoized_counterexample:
  "fst (list host_unpackaged sh_absent (initial ())) = Failed [cannot_find]
   \<and> calls (snd (list host_unpackaged sh_absent (initial ()))) = [Exec ''duffle version'']
   \<and> fst (list host_unpackaged sh_absent (snd (list host_unpackaged sh_absent (initial ()))))
        = Failed [cannot_find]
   \<and> calls (snd (list host_unpackaged sh_absent
                    (snd (list host_unpackaged sh_absent (initial ())))))
        = [Exec ''duffle version'', Exec ''duffle version'']"
  by (simp add: list_def invokeObj_def findDuffleBinary_def findDuffleBinaryCore_def sh_exec_def
      fixture_defs)

text \<open>
  C1, amended. When resolution fails, the cache stays empty and the resolution has called
  the shell, first with \<^verbatim>\<open>duffle version\<close>. The next operation (any shell, host,
  command and parser) runs resolution again: its first call of the shell is
  \<^verbatim>\<open>duffle version\<close> once more. When that resolution fails too, the operation fails with
  the "Can't find Duffle" message, and all it has called is \<open>exec\<close>, for the probes: the
  operation's own command is not executed.
\<close>

theorem failed_resolution_is_retried:
  assumes "findDuffleBinary host sh s = (None, s1)"
  shows "duffle s1 = None
       \<and> (\<exists>rest. calls s1 = calls s @ Exec ''duffle version'' # map Exec rest)
       \<and> (\<exists>rest. calls (snd (invokeObj host' sh' command args opts fn s1)) =
             calls s1 @ Exec ''duffle version'' # rest)
       \<and> (fst (findDuffleBinary host' sh' s1) = None \<longrightarrow>
             fst (invokeObj host' sh' command args opts fn s1) = Failed [cannot_find]
           \<and> (\<exists>rest. calls (snd (invokeObj host' sh' command args opts fn s1)) =
                calls s1 @ Exec ''duffle version'' # map Exec rest))"
proof -
  from assms have miss: "fst (findDuffleBinary host sh s) = None"
    and s1: "s1 = snd (findDuffleBinary host sh s)" by simp_all
  have d: "duffle s1 = None"
    using find_miss(1)[OF miss] find_miss(2)[OF miss] s1 by (simp add: core_duffle)
  have c: "\<exists>rest. calls s1 = calls s @ Exec ''duffle version'' # map Exec rest"
    using find_miss_calls[OF miss] s1 by simp
  have again: "\<exists>rest. calls (snd (invokeObj host' sh' command args opts fn s1)) =
             calls s1 @ Exec ''duffle version'' # rest"
    by (rule invoke_empty_calls[OF d])
  have fail: "fst (findDuffleBinary host' sh' s1) = None \<longrightarrow>
             fst (invokeObj host' sh' command args opts fn s1) = Failed [cannot_find]
           \<and> (\<exists>rest. calls (snd (invokeObj host' sh' command args opts fn s1)) =
                calls s1 @ Exec ''duffle version'' # map Exec rest)"
  proof
    assume m: "fst (findDuffleBinary host' sh' s1) = None"
    show "fst (invokeObj host' sh' command args opts fn s1) = Failed [cannot_find]
           \<and> (\<exists>rest. calls (snd (invokeObj host' sh' command args opts fn s1)) =
                calls s1 @ Exec ''duffle version'' # map Exec rest)"
      using find_miss_calls[OF m] by (simp add: invoke_miss[OF m])
  qed
  from d c again fail show ?thesis by blast
qed

text \<open>
  The amended C1 with no duffle on the machine: resolution fails in a fresh process, and
  an \<^verbatim>\<open>uninstall\<close> after it fails with the message.
\<close>

theorem failed_resolution_is_retried_witness:
  "findDuffleBinary host_unpackaged (sh_absent :: (unit, unit) Shell) (initial ()) =
     (None, \<lparr>duffle = None, world = (), calls = [Exec ''duffle version'']\<rparr>)
   \<and> fst (findDuffleBinary host_unpackaged (sh_absent :: (unit, unit) Shell)
        \<lparr>duffle = None, world = (), calls = [Exec ''duffle version'']\<rparr>) = None
   \<and> duffle \<lparr>duffle = None, world = (), calls = [Exec ''duffle version'']\<rparr> = None
   \<and> fst (invokeObj host_unpackaged (sh_absent :: (unit, unit) Shell) ''uninstall'' ''foo'' []
        (\<lambda>s. ()) \<lparr>duffle = None, world = (), calls = [Exec ''duffle version'']\<rparr>)
       = Failed [cannot_find]"
proof -
  have h: "findDuffleBinary host_unpackaged (sh_absent :: (unit, unit) Shell) (initial ()) =
     (None, \<lparr>duffle = None, world = (), calls = [Exec ''duffle version'']\<rparr>)"
    by (simp add: findDuffleBinary_def findDuffleBinaryCore_def sh_exec_def fixture_defs)
  have m: "fst (findDuffleBinary host_unpackaged (sh_absent :: (unit, unit) Shell)
        \<lparr>duffle = None, world = (), calls = [Exec ''duffle version'']\<rparr>) = None"
    by (simp add: findDuffleBinary_def findDuffleBinaryCore_def sh_exec_def fixture_defs)
  show ?thesis
    using h m failed_resolution_is_retried
      [OF h, of host_unpackaged sh_absent "''uninstall''" "''foo''" "[]" "\<lambda>s. ()"]
    by simp
qed

section \<open>The invocation facade\<close>

text \<open>
  C5. For every command, argument string, options and parser: when resolution yields
  nothing, \<open>invokeObj\<close> returns the failure with the one "Can't find Duffle" message and
  stops in the state resolution left, without attempting execution. All that has called
  the shell is resolution itself, with \<^verbatim>\<open>duffle version\<close> first and through \<open>exec\<close> every
  time; \<open>execObj\<close> is not called, so no process is spawned for the operation's command.
\<close>

theorem invokeObj_unavailable:
  assumes "fst (findDuffleBinary host sh s) = None"
  shows "invokeObj host sh command args opts fn s =
           (Failed [cannot_find], snd (findDuffleBinary host sh s))
       \<and> (\<exists>rest. calls (snd (invokeObj host sh command args opts fn s)) =
             calls s @ Exec ''duffle version'' # map Exec rest)"
  using find_miss_calls[OF assms] by (simp add: invoke_miss[OF assms])

text \<open>
  C5 for \<^verbatim>\<open>list\<close> in a packaged application on Linux with no duffle at all: the two
  probes of resolution run, and nothing else.
\<close>

theorem invokeObj_unavailable_witness:
  "fst (findDuffleBinary host_packaged (sh_absent :: (unit, string list) Shell) (initial ()))
     = None
   \<and> invokeObj host_packaged sh_absent ''list'' [] [] list_parse (initial ()) =
       (Failed [cannot_find],
        \<lparr>duffle = None, world = (),
         calls = [Exec ''duffle version'',
                  Exec ''/opt/app/resources/dufflebin/linux/duffle version'']\<rparr>)"
proof -
  have h: "fst (findDuffleBinary host_packaged (sh_absent :: (unit, string list) Shell)
             (initial ())) = None"
    by (simp add: findDuffleBinary_def findDuffleBinaryCore_def sh_exec_def fixture_defs)
  have s: "snd (findDuffleBinary host_packaged (sh_absent :: (unit, string list) Shell)
             (initial ())) =
          \<lparr>duffle = None, world = (),
           calls = [Exec ''duffle version'',
                    Exec ''/opt/app/resources/dufflebin/linux/duffle version'']\<rparr>"
    by (simp add: findDuffleBinary_def findDuffleBinaryCore_def sh_exec_def fixture_defs)
  show ?thesis
    using h s invokeObj_unavailable [OF h, of "''list''" "[]" "[]" list_parse] by simp
qed

section \<open>Argument strings\<close>

lemma set_tokens_eq:
  "map (\<lambda>p. ''--set '' @ key p @ ''='' @ safeValue (val p))
     (filter (\<lambda>p. truthy (Some (val p))) (fromStringMap ps)) = spec_set_tokens safeValue ps"
  by (induction ps) (auto simp: fromStringMap_def)

lemma fromStringMap_append: "fromStringMap (xs @ ys) = fromStringMap xs @ fromStringMap ys"
  by (simp add: fromStringMap_def)

text \<open>
  C6. For every parameter mapping, \<open>paramsArgs\<close> is the space-joined sequence of the
  tokens \<^verbatim>\<open>--set key=escaped-value\<close> of the entries with a non-empty value, in the order
  of the entries; and an entry with the empty string as value, wherever it stands, leaves
  no trace: the rendering is that of the mapping without it.
\<close>

theorem paramsArgs_drops_empty:
  "paramsArgs safeValue ps = join '' '' (spec_set_tokens safeValue ps)
   \<and> paramsArgs safeValue (xs @ (k, []) # ys) = paramsArgs safeValue (xs @ ys)"
proof -
  have a: "paramsArgs safeValue ps = join '' '' (spec_set_tokens safeValue ps)"
    by (simp only: paramsArgs_def set_tokens_eq)
  have "fromStringMap ((k, []) # ys) = \<lparr>key = k, val = []\<rparr> # fromStringMap ys"
    by (simp add: fromStringMap_def)
  then have b: "paramsArgs safeValue (xs @ (k, []) # ys) = paramsArgs safeValue (xs @ ys)"
    by (simp add: paramsArgs_def fromStringMap_append)
  from a b show ?thesis by simp
qed

text \<open>
  C2, as stated, fails. \<open>installBundle\<close> takes the name of the installation besides the
  bundle name and renders it first: with the name \<^verbatim>\<open>demo\<close> the arguments are
  \<^verbatim>\<open>demo foo --set x=1 -c creds\<close>, and no name and no escaping make them
  \<^verbatim>\<open>foo --set x=1 -c creds\<close>.
\<close>

theorem installBundle_args_not_bare_counterexample:
  "installBundle_args id ''foo'' ''demo'' [(''x'', ''1''), (''y'', [])] (Some ''creds'')
       = ''demo foo --set x=1 -c creds''
   \<and> \<not> (\<exists>safeValue name.
          installBundle_args safeValue ''foo'' name [(''x'', ''1''), (''y'', [])] (Some ''creds'')
            = ''foo --set x=1 -c creds'')"
proof -
  have a: "installBundle_args id ''foo'' ''demo'' [(''x'', ''1''), (''y'', [])] (Some ''creds'')
       = ''demo foo --set x=1 -c creds''"
    by (simp add: installBundle_args_def paramsArgs_def fromStringMap_def credentialArg_def)
  have b: "installBundle_args safeValue ''foo'' name [(''x'', ''1''), (''y'', [])] (Some ''creds'')
            \<noteq> ''foo --set x=1 -c creds''" for safeValue name
  proof
    assume "installBundle_args safeValue ''foo'' name [(''x'', ''1''), (''y'', [])]
              (Some ''creds'') = ''foo --set x=1 -c creds''"
    then have e: "name @ '' foo --set x='' @ safeValue ''1'' @ '' -c creds''
        = ''foo --set x=1 -c creds''"
      by (simp add: installBundle_args_def paramsArgs_def fromStringMap_def credentialArg_def)
    then have "length (name @ '' foo --set x='' @ safeValue ''1'' @ '' -c creds'')
        = length ''foo --set x=1 -c creds''"
      by (rule arg_cong)
    then have "name = []" by simp
    with e show False by simp
  qed
  from a b show ?thesis by blast
qed

text \<open>
  C2, amended. With an escaping that leaves \<^verbatim>\<open>1\<close> as it is, \<open>installBundle\<close> with bundle
  name \<^verbatim>\<open>foo\<close>, parameters \<^verbatim>\<open>{x: "1", y: ""}\<close> and credential set \<^verbatim>\<open>creds\<close> renders the
  name of the installation followed by \<^verbatim>\<open> foo --set x=1 -c creds\<close>; the entry \<^verbatim>\<open>y\<close> is
  dropped.
\<close>

theorem installBundle_args_example:
  assumes "safeValue ''1'' = ''1''"
  shows "installBundle_args safeValue ''foo'' name [(''x'', ''1''), (''y'', [])] (Some ''creds'')
           = name @ '' foo --set x=1 -c creds''"
  using assms
  by (simp add: installBundle_args_def paramsArgs_def fromStringMap_def credentialArg_def)

text \<open>The amended C2 with the identity as escaping and the name \<^verbatim>\<open>demo\<close>.\<close>

theorem installBundle_args_example_witness:
  "id ''1'' = ''1''
   \<and> installBundle_args id ''foo'' ''demo'' [(''x'', ''1''), (''y'', [])] (Some ''creds'')
       = ''demo foo --set x=1 -c creds''"
proof -
  have h: "id ''1'' = ''1''" by simp
  show ?thesis using h installBundle_args_example [of id "''demo''"] by simp
qed

text \<open>
  C7. Without a credential set, \<open>credentialArg\<close> is empty, and both install operations
  render nothing after the parameters; for the credential set \<^verbatim>\<open>myset\<close> it is exactly
  \<^verbatim>\<open>-c myset\<close>.
\<close>

theorem credentialArg_absent_and_present:
  "credentialArg None = []
   \<and> credentialArg (Some ''myset'') = ''-c myset''
   \<and> installBundle_args safeValue bundleName name params None
       = name @ '' '' @ bundleName @ '' '' @ paramsArgs safeValue params @ '' ''
   \<and> installFile_args safeValue bundleFilePath name params None
       = name @ '' -f '' @ [CHR 0x22] @ bundleFilePath @ [CHR 0x22] @ '' ''
           @ paramsArgs safeValue params @ '' ''"
  by (simp add: credentialArg_def installBundle_args_def installFile_args_def)

text \<open>
  C10. A credential set that is the empty string is rendered as an absent one: no
  \<^verbatim>\<open>-c\<close>, and the same argument string of both install operations.
\<close>

theorem credentialArg_empty_is_absent:
  "credentialArg (Some []) = credentialArg None
   \<and> credentialArg (Some []) = []
   \<and> installBundle_args safeValue bundleName name params (Some [])
       = installBundle_args safeValue bundleName name params None
   \<and> installFile_args safeValue bundleFilePath name params (Some [])
       = installFile_args safeValue bundleFilePath name params None"
  by (simp add: credentialArg_def installBundle_args_def installFile_args_def)

section \<open>Parsing lists\<close>

lemma str_split_no_sep: "sep \<notin> set l \<Longrightarrow> str_split sep l = [l]"
  by (induction l) auto

lemma str_split_line:
  "sep \<notin> set l \<Longrightarrow> str_split sep (l @ sep # rest) = l # str_split sep rest"
  by (induction l) auto

text \<open>Splitting undoes joining: lines without the separator come back as they were.\<close>

lemma str_split_join:
  "ls \<noteq> [] \<Longrightarrow> \<forall>l\<in>set ls. sep \<notin> set l \<Longrightarrow> str_split sep (join [sep] ls) = ls"
  by (induction "[sep]" ls rule: join.induct) (simp_all add: str_split_no_sep str_split_line)

text \<open>
  C8. The parsers of \<open>list\<close> and \<open>listCredentialSets\<close> both turn the stdout
  \<^verbatim>\<open>"a\n  b  \n\nc\n"\<close> into \<^verbatim>\<open>["a", "b", "c"]\<close>. In general, for a stdout made of
  lines (none holding a newline) with a newline between neighbours, both return the
  trimmed lines that are not empty, in the order of the lines.
\<close>

theorem list_parse_trimmed_lines:
  "list_parse ''a\<newline>  b  \<newline>\<newline>c\<newline>'' = [''a'', ''b'', ''c'']
   \<and> listCredentialSets_parse ''a\<newline>  b  \<newline>\<newline>c\<newline>'' = [''a'', ''b'', ''c'']
   \<and> (\<forall>ls. ls \<noteq> [] \<and> (\<forall>l\<in>set ls. CHR 0x0A \<notin> set l) \<longrightarrow>
         list_parse (join ''\<newline>'' ls) = filter (\<lambda>l. l \<noteq> []) (map trim ls)
       \<and> listCredentialSets_parse (join ''\<newline>'' ls) = filter (\<lambda>l. l \<noteq> []) (map trim ls))"
proof -
  have a: "list_parse ''a\<newline>  b  \<newline>\<newline>c\<newline>'' = [''a'', ''b'', ''c'']"
    by (simp add: list_parse_def trim_def isWhiteSpace_def)
  have b: "listCredentialSets_parse ''a\<newline>  b  \<newline>\<newline>c\<newline>'' = [''a'', ''b'', ''c'']"
    by (simp add: listCredentialSets_parse_def trim_def isWhiteSpace_def)
  have c: "list_parse (join ''\<newline>'' ls) = filter (\<lambda>l. l \<noteq> []) (map trim ls)
       \<and> listCredentialSets_parse (join ''\<newline>'' ls) = filter (\<lambda>l. l \<noteq> []) (map trim ls)"
    if "ls \<noteq> []" and "\<forall>l\<in>set ls. CHR 0x0A \<notin> set l" for ls
    using str_split_join[OF that]
    by (simp add: list_parse_def listCredentialSets_parse_def)
  from a b c show ?thesis by blast
qed

text \<open>
  C8 on the four lines \<^verbatim>\<open>"x"\<close>, \<^verbatim>\<open>" y z "\<close>, \<^verbatim>\<open>""\<close> and \<^verbatim>\<open>"  "\<close>: the inner space of the
  second line stays, the blank lines go.
\<close>

theorem list_parse_trimmed_lines_witness:
  "[''x'', '' y z '', [], ''  ''] \<noteq> []
   \<and> CHR 0x0A \<notin> set (concat [''x'', '' y z '', [], ''  ''])
   \<and> list_parse ''x\<newline> y z \<newline>\<newline>  '' = [''x'', ''y z'']
   \<and> listCredentialSets_parse ''x\<newline> y z \<newline>\<newline>  '' = [''x'', ''y z'']"
proof -
  have h: "[''x'', '' y z '', [], ''  ''] \<noteq> []
      \<and> (\<forall>l\<in>set [''x'', '' y z '', [], ''  '']. CHR 0x0A \<notin> set l)"
    by simp
  from list_parse_trimmed_lines
  have "\<forall>ls. ls \<noteq> [] \<and> (\<forall>l\<in>set ls. CHR 0x0A \<notin> set l) \<longrightarrow>
         list_parse (join ''\<newline>'' ls) = filter (\<lambda>l. l \<noteq> []) (map trim ls)
       \<and> listCredentialSets_parse (join ''\<newline>'' ls) = filter (\<lambda>l. l \<noteq> []) (map trim ls)"
    by blast
  from this [rule_format, OF h] show ?thesis
    by (simp add: trim_def isWhiteSpace_def)
qed

end
